theory Spec2Isabelle
  imports Main
begin

section \<open>The mock CQF service (services/cqfService.ts)\<close>

text \<open>
  The service keeps one module-level variable,
  \<^verbatim>\<open>const mockBackendStore: Map<string, Set<string>> = new Map()\<close>,
  from a table name to the keys of that table's filter. Every function of the service
  first awaits a timer and then runs the rest of its body without a further
  \<^verbatim>\<open>await\<close>, so the body is one uninterrupted step on the store. The timer is not
  modelled; each function takes the store and returns its outcome with the store it
  leaves behind.

  A JavaScript \<^verbatim>\<open>Map\<close> is a partial function, and a \<^verbatim>\<open>Set<string>\<close> is read
  and written here only through the constructor, \<^verbatim>\<open>has\<close>, \<^verbatim>\<open>add\<close> and
  \<^verbatim>\<open>delete\<close>, none of which shows the insertion order: it is a set of strings.
  \<^verbatim>\<open>buildCQF\<close> stores a fresh \<^verbatim>\<open>Set\<close> each time, so no two names ever hold the
  same object and an update under one name is an update of the map at that name only.
\<close>

type_synonym store = "string \<rightharpoonup> string set"

definition mockBackendStore :: store where
  \<comment> \<open>the store when the module is loaded: \<^verbatim>\<open>new Map()\<close>\<close>
  "mockBackendStore = Map.empty"

text \<open>
  The only failure of the service is \<^verbatim>\<open>throw new Error("Filter not built for this table")\<close>:
  a JavaScript \<^verbatim>\<open>Error\<close> carrying its message.
\<close>

datatype error = Error string

definition NotBuilt :: error where
  "NotBuilt = Error ''Filter not built for this table''"

text \<open>The objects the promises resolve to.\<close>

record found_result =
  found :: bool

record success_result =
  success :: bool

record build_result = success_result +
  message :: string

subsection \<open>Numbers in template literals\<close>

text \<open>
  \<^verbatim>\<open>${keys.length}\<close> renders an array length, a non-negative integer, in decimal.
\<close>

definition digit_char :: "nat \<Rightarrow> char" where
  "digit_char d = ''0123456789'' ! d"

function string_of_nat :: "nat \<Rightarrow> string" where
  "string_of_nat n =
     (if n < 10 then [digit_char n]
      else string_of_nat (n div 10) @ [digit_char (n mod 10)])"
  by pat_completeness auto
termination
  by (relation "measure id") auto

subsection \<open>The four operations\<close>

text \<open>
  \<^verbatim>\<open>
  export const buildCQF = async (tableName, keys) => {
    await delay(1500);
    mockBackendStore.set(tableName, new Set(keys));
    return { success: true,
             message: `CQF built successfully for ${tableName} with ${keys.length} keys.` };
  };
  \<close>
\<close>

definition buildCQF :: "string \<Rightarrow> string list \<Rightarrow> store \<Rightarrow> (error + build_result) \<times> store" where
  "buildCQF tableName keys st =
     (Inr \<lparr>success = True,
           message = ''CQF built successfully for '' @ tableName @ '' with ''
                       @ string_of_nat (length keys) @ '' keys.''\<rparr>,
      st(tableName \<mapsto> set keys))"

text \<open>
  \<^verbatim>\<open>
  export const searchCQF = async (tableName, key) => {
    await delay(300);
    const set = mockBackendStore.get(tableName);
    if (!set) throw new Error("Filter not built for this table");
    return { found: set.has(key) };
  };
  \<close>
  A \<^verbatim>\<open>Set\<close> object is truthy even when empty, so \<^verbatim>\<open>!set\<close> holds exactly when
  the name has no entry.
\<close>

definition searchCQF :: "string \<Rightarrow> string \<Rightarrow> store \<Rightarrow> (error + found_result) \<times> store" where
  "searchCQF tableName key st =
     (case st tableName of
        None \<Rightarrow> (Inl (Error ''Filter not built for this table''), st)
      | Some s \<Rightarrow> (Inr \<lparr>found = (key \<in> s)\<rparr>, st))"

text \<open>
  \<^verbatim>\<open>
  export const insertCQF = async (tableName, key) => {
    await delay(500);
    const set = mockBackendStore.get(tableName);
    if (!set) throw new Error("Filter not built for this table");
    set.add(key);
    return { success: true };
  };
  \<close>
\<close>

definition insertCQF :: "string \<Rightarrow> string \<Rightarrow> store \<Rightarrow> (error + success_result) \<times> store" where
  "insertCQF tableName key st =
     (case st tableName of
        None \<Rightarrow> (Inl (Error ''Filter not built for this table''), st)
      | Some s \<Rightarrow> (Inr \<lparr>success = True\<rparr>, st(tableName \<mapsto> insert key s)))"

text \<open>
  \<^verbatim>\<open>
  export const deleteCQF = async (tableName, key) => {
    await delay(500);
    const set = mockBackendStore.get(tableName);
    if (!set) throw new Error("Filter not built for this table");
    const deleted = set.delete(key);
    return { success: deleted };
  };
  \<close>
  \<^verbatim>\<open>Set.prototype.delete\<close> returns whether the element was present.
\<close>

definition deleteCQF :: "string \<Rightarrow> string \<Rightarrow> store \<Rightarrow> (error + success_result) \<times> store" where
  "deleteCQF tableName key st =
     (case st tableName of
        None \<Rightarrow> (Inl (Error ''Filter not built for this table''), st)
      | Some s \<Rightarrow> (Inr \<lparr>success = (key \<in> s)\<rparr>, st(tableName \<mapsto> s - {key})))"

subsection \<open>The key file\<close>

text \<open>
  \<^verbatim>\<open>export const generatePKFileContent = (keys) => keys.join('\n')\<close>.
  \<^verbatim>\<open>Array.prototype.join\<close> starts from the empty string and walks the array from
  index 0, appending the separator before every element but the first, then the element.
\<close>

fun join_from :: "string \<Rightarrow> string \<Rightarrow> string list \<Rightarrow> string" where
  "join_from sep r [] = r"
| "join_from sep r (x # xs) = join_from sep (r @ sep @ x) xs"

fun join :: "string \<Rightarrow> string list \<Rightarrow> string" where
  "join sep [] = []"
| "join sep (x # xs) = join_from sep x xs"

definition generatePKFileContent :: "string list \<Rightarrow> string" where
  "generatePKFileContent keys = join [CHR 0x0A] keys"

subsection \<open>Sequences of calls\<close>

text \<open>
  A caller issues calls one after the other. \<open>perform\<close> is the store a call leaves
  behind, whether it resolved or threw; \<open>run\<close> folds it over a sequence of calls.
\<close>

datatype request =
    Build string "string list"
  | Search string string
  | Insert string string
  | Delete string string

fun perform :: "request \<Rightarrow> store \<Rightarrow> store" where
  "perform (Build n ks) st = snd (buildCQF n ks st)"
| "perform (Search n k) st = snd (searchCQF n k st)"
| "perform (Insert n k) st = snd (insertCQF n k st)"
| "perform (Delete n k) st = snd (deleteCQF n k st)"

fun run :: "request list \<Rightarrow> store \<Rightarrow> store" where
  "run [] st = st"
| "run (r # rs) st = run rs (perform r st)"

text \<open>
  The number of keys an instance holds (\<^verbatim>\<open>Set.prototype.size\<close>), for a name that has
  an instance.
\<close>

definition itemCount :: "string \<Rightarrow> store \<Rightarrow> nat option" where
  "itemCount tableName st = map_option card (st tableName)"

subsection \<open>What a call does to one key of one name\<close>

text \<open>
  The statements about sequences of calls classify a call by what it does to a key
  \<open>k\<close> of the filter \<open>name\<close>. \<open>adds\<close>: the call, issued on store \<open>st\<close>, puts
  \<open>k\<close> into the filter, either as one of the keys of a build of \<open>name\<close> or as the key
  of an insert that finds an instance. \<open>deletes\<close>: the call is \<open>delete(name, k)\<close>.
  \<open>rebuilds_without\<close>: the call builds \<open>name\<close> again from keys that do not contain
  \<open>k\<close>. \<open>builds\<close>: the call is a build of \<open>name\<close>.
\<close>

fun adds :: "string \<Rightarrow> string \<Rightarrow> store \<Rightarrow> request \<Rightarrow> bool" where
  "adds name k st (Build n ks) = (n = name \<and> k \<in> set ks)"
| "adds name k st (Insert n k') = (n = name \<and> k' = k \<and> st name \<noteq> None)"
| "adds name k st (Search n k') = False"
| "adds name k st (Delete n k') = False"

fun deletes :: "string \<Rightarrow> string \<Rightarrow> request \<Rightarrow> bool" where
  "deletes name k (Delete n k') = (n = name \<and> k' = k)"
| "deletes name k (Build n ks) = False"
| "deletes name k (Search n k') = False"
| "deletes name k (Insert n k') = False"

fun rebuilds_without :: "string \<Rightarrow> string \<Rightarrow> request \<Rightarrow> bool" where
  "rebuilds_without name k (Build n ks) = (n = name \<and> k \<notin> set ks)"
| "rebuilds_without name k (Search n k') = False"
| "rebuilds_without name k (Insert n k') = False"
| "rebuilds_without name k (Delete n k') = False"

fun builds :: "string \<Rightarrow> request \<Rightarrow> bool" where
  "builds name (Build n ks) = (n = name)"
| "builds name (Search n k) = False"
| "builds name (Insert n k) = False"
| "builds name (Delete n k) = False"

text \<open>\<open>holds name k st\<close>: the store has an instance for \<open>name\<close>, and \<open>k\<close> is in it.\<close>

definition holds :: "string \<Rightarrow> string \<Rightarrow> store \<Rightarrow> bool" where
  "holds name k st = (case st name of None \<Rightarrow> False | Some s \<Rightarrow> k \<in> s)"

text \<open>
  The key file as the specification words it: the keys, one per line, with a newline
  between two consecutive keys and nowhere else.
\<close>

fun newline_joined :: "string list \<Rightarrow> string" where
  "newline_joined [] = []"
| "newline_joined [k] = k"
| "newline_joined (k # k' # ks) = k @ CHR 0x0A # newline_joined (k' # ks)"

section \<open>Properties\<close>

lemma NotBuilt_unbuilt:
  "st name = None \<Longrightarrow>
     searchCQF name key st = (Inl NotBuilt, st) \<and>
     insertCQF name key st = (Inl NotBuilt, st) \<and>
     deleteCQF name key st = (Inl NotBuilt, st)"
  by (simp add: searchCQF_def insertCQF_def deleteCQF_def NotBuilt_def)

subsection \<open>Sequences of calls, step by step\<close>

lemma run_append: "run (xs @ ys) st = run ys (run xs st)"
  by (induction xs arbitrary: st) simp_all

lemma adds_holds: "adds name k st a \<Longrightarrow> holds name k (perform a st)"
  by (cases a) (auto simp: holds_def buildCQF_def insertCQF_def split: option.splits)

lemma perform_keeps:
  "holds name k st \<Longrightarrow> \<not> deletes name k r \<Longrightarrow> \<not> rebuilds_without name k r \<Longrightarrow>
     holds name k (perform r st)"
  by (cases r)
     (auto simp: holds_def buildCQF_def searchCQF_def insertCQF_def deleteCQF_def
           split: option.splits)

lemma run_keeps:
  "holds name k st \<Longrightarrow> list_all (\<lambda>r. \<not> deletes name k r \<and> \<not> rebuilds_without name k r) rs \<Longrightarrow>
     holds name k (run rs st)"
  by (induction rs arbitrary: st) (simp_all add: perform_keeps)

lemma holds_search: "holds name k st \<Longrightarrow> searchCQF name k st = (Inr \<lparr>found = True\<rparr>, st)"
  by (simp add: holds_def searchCQF_def split: option.splits)

subsection \<open>No false negatives\<close>

text \<open>
  A key supplied to a build is lost, without any delete, when the same name is built
  again from keys that omit it: after \<open>build(t, [a])\<close> and \<open>build(t, [])\<close> the key
  \<open>a\<close> was supplied to a build of \<open>t\<close> and never deleted, and the search does not
  find it.
\<close>

theorem rebuild_drops_key:
  "adds ''t'' ''a'' mockBackendStore (Build ''t'' [''a'']) \<and>
   \<not> deletes ''t'' ''a'' (Build ''t'' []) \<and>
   fst (searchCQF ''t'' ''a'' (run [Build ''t'' [''a''], Build ''t'' []] mockBackendStore))
     = Inr \<lparr>found = False\<rparr>"
  by (simp add: buildCQF_def searchCQF_def)

text \<open>
  Claim C1, as the code has it. Let a call add \<open>k\<close> to \<open>name\<close>: a build of \<open>name\<close>
  whose keys contain \<open>k\<close>, or an insert of \<open>k\<close> under \<open>name\<close> that finds an instance.
  If no later call deletes \<open>k\<close> from \<open>name\<close> and no later call builds \<open>name\<close> again
  from keys without \<open>k\<close>, then \<open>search(name, k)\<close> returns \<open>found = true\<close>, whatever
  was called before and whatever else is called after.
\<close>

theorem no_false_negatives:
  assumes "adds name k (run pre st) a"
    and "list_all (\<lambda>r. \<not> deletes name k r \<and> \<not> rebuilds_without name k r) post"
  shows "fst (searchCQF name k (run (pre @ a # post) st)) = Inr \<lparr>found = True\<rparr>"
proof -
  have "holds name k (perform a (run pre st))"
    using assms(1) by (rule adds_holds)
  then have "holds name k (run post (perform a (run pre st)))"
    using assms(2) by (rule run_keeps)
  then have "holds name k (run (pre @ a # post) st)"
    by (simp add: run_append)
  then show ?thesis
    by (simp add: holds_search)
qed

theorem no_false_negatives_witness:
  "adds ''users'' ''7'' (run [Build ''users'' [''1'', ''2'']] mockBackendStore) (Insert ''users'' ''7'') \<and>
   list_all (\<lambda>r. \<not> deletes ''users'' ''7'' r \<and> \<not> rebuilds_without ''users'' ''7'' r)
     [Delete ''users'' ''1'', Build ''orders'' [], Insert ''users'' ''8'',
      Build ''users'' [''9'', ''7'']] \<and>
   fst (searchCQF ''users'' ''7''
     (run ([Build ''users'' [''1'', ''2'']] @ Insert ''users'' ''7'' #
           [Delete ''users'' ''1'', Build ''orders'' [], Insert ''users'' ''8'',
            Build ''users'' [''9'', ''7'']]) mockBackendStore)) = Inr \<lparr>found = True\<rparr>"
  using no_false_negatives [of "''users''" "''7''" "[Build ''users'' [''1'', ''2'']]"
      mockBackendStore "Insert ''users'' ''7''"
      "[Delete ''users'' ''1'', Build ''orders'' [], Insert ''users'' ''8'',
        Build ''users'' [''9'', ''7'']]"]
  by (simp add: buildCQF_def mockBackendStore_def)

subsection \<open>What a build stores and what it reports\<close>

text \<open>
  The object a build resolves to has no count field; the only count it reports is the one
  in its message, which is \<^verbatim>\<open>keys.length\<close>. For the keys \<open>[a, a]\<close> the message says
  2 keys, and the number of distinct keys is 1.
\<close>

theorem build_message_counts_duplicates:
  "fst (buildCQF ''t'' [''a'', ''a''] mockBackendStore)
     = Inr \<lparr>success = True, message = ''CQF built successfully for t with 2 keys.''\<rparr> \<and>
   card (set [''a'', ''a'']) = 1"
  by (simp add: buildCQF_def digit_char_def)

text \<open>
  Claim C2, as the code has it. For every name, key sequence and store, the build
  succeeds; the instance it stores holds exactly the distinct keys of the sequence, so
  that its item count is the number of distinct keys, and 0 for the empty sequence; the
  count in the returned message is the length of the sequence, duplicates included.
\<close>

theorem build_item_count:
  "fst (buildCQF name keys st)
     = Inr \<lparr>success = True,
            message = ''CQF built successfully for '' @ name @ '' with ''
                        @ string_of_nat (length keys) @ '' keys.''\<rparr> \<and>
   snd (buildCQF name keys st) name = Some (set keys) \<and>
   itemCount name (snd (buildCQF name keys st)) = Some (length (remdups keys)) \<and>
   itemCount name (snd (buildCQF name [] st)) = Some 0"
  by (simp add: buildCQF_def itemCount_def card_set)

theorem build_item_count_witness:
  "fst (buildCQF ''users'' [''1'', ''2'', ''2'', ''3''] mockBackendStore)
     = Inr \<lparr>success = True, message = ''CQF built successfully for users with 4 keys.''\<rparr> \<and>
   itemCount ''users'' (snd (buildCQF ''users'' [''1'', ''2'', ''2'', ''3''] mockBackendStore)) = Some 3"
  using build_item_count [of "''users''" "[''1'', ''2'', ''2'', ''3'']" mockBackendStore]
  by (simp add: digit_char_def)

subsection \<open>Names without an instance\<close>

lemma never_built_None:
  "st name = None \<Longrightarrow> list_all (\<lambda>r. \<not> builds name r) calls \<Longrightarrow> run calls st name = None"
proof (induction calls arbitrary: st)
  case Nil
  then show ?case by simp
next
  case (Cons r rs)
  from Cons.prems have "perform r st name = None"
    by (cases r)
       (auto simp: buildCQF_def searchCQF_def insertCQF_def deleteCQF_def split: option.splits)
  with Cons show ?case by simp
qed

text \<open>
  Claim C3. After any sequence of calls from the initial store that contains no build of
  \<open>name\<close>, the calls \<open>search(name, key)\<close>, \<open>insert(name, key)\<close> and
  \<open>delete(name, key)\<close> each end in the not-built error, for every key, and leave the
  store as it is; none of them resolves with a result.
\<close>

theorem unbuilt_access:
  assumes "list_all (\<lambda>r. \<not> builds name r) calls"
  shows "searchCQF name key (run calls mockBackendStore) = (Inl NotBuilt, run calls mockBackendStore) \<and>
         insertCQF name key (run calls mockBackendStore) = (Inl NotBuilt, run calls mockBackendStore) \<and>
         deleteCQF name key (run calls mockBackendStore) = (Inl NotBuilt, run calls mockBackendStore)"
proof -
  have "run calls mockBackendStore name = None"
    using assms by (simp add: never_built_None mockBackendStore_def)
  then show ?thesis
    by (rule NotBuilt_unbuilt)
qed

theorem unbuilt_access_witness:
  "list_all (\<lambda>r. \<not> builds ''orders'' r)
     [Build ''users'' [''1''], Insert ''orders'' ''x'', Delete ''users'' ''1''] \<and>
   fst (searchCQF ''orders'' ''x''
         (run [Build ''users'' [''1''], Insert ''orders'' ''x'', Delete ''users'' ''1''] mockBackendStore))
     = Inl NotBuilt \<and>
   fst (insertCQF ''orders'' ''x''
         (run [Build ''users'' [''1''], Insert ''orders'' ''x'', Delete ''users'' ''1''] mockBackendStore))
     = Inl NotBuilt \<and>
   fst (deleteCQF ''orders'' ''x''
         (run [Build ''users'' [''1''], Insert ''orders'' ''x'', Delete ''users'' ''1''] mockBackendStore))
     = Inl NotBuilt"
  using unbuilt_access [where name = "''orders''" and key = "''x''"
      and calls = "[Build ''users'' [''1''], Insert ''orders'' ''x'', Delete ''users'' ''1'']"]
  by simp

subsection \<open>Delete\<close>

text \<open>
  Claim C4. On a name whose instance holds the keys \<open>s\<close>, \<open>delete(name, k)\<close> resolves
  (it is not an error) with \<open>success\<close> true exactly when \<open>k\<close> is in \<open>s\<close>, and leaves
  the instance as \<open>s\<close> without \<open>k\<close>; when \<open>k\<close> is absent the store is unchanged.
  After it a search for \<open>k\<close> finds nothing and a second delete of \<open>k\<close> resolves with
  \<open>success = false\<close>: for a member, two deletes in a row give true and then false.
\<close>

theorem delete_outcome:
  assumes "st name = Some s"
  shows "deleteCQF name k st = (Inr \<lparr>success = (k \<in> s)\<rparr>, st(name \<mapsto> s - {k})) \<and>
         (k \<notin> s \<longrightarrow> snd (deleteCQF name k st) = st) \<and>
         fst (searchCQF name k (snd (deleteCQF name k st))) = Inr \<lparr>found = False\<rparr> \<and>
         fst (deleteCQF name k (snd (deleteCQF name k st))) = Inr \<lparr>success = False\<rparr>"
proof -
  have first: "deleteCQF name k st = (Inr \<lparr>success = (k \<in> s)\<rparr>, st(name \<mapsto> s - {k}))"
    using assms by (simp add: deleteCQF_def)
  have noop: "k \<notin> s \<longrightarrow> st(name \<mapsto> s - {k}) = st"
    using assms by (simp add: fun_upd_idem)
  have gone: "fst (searchCQF name k (st(name \<mapsto> s - {k}))) = Inr \<lparr>found = False\<rparr>"
    by (simp add: searchCQF_def)
  have again: "fst (deleteCQF name k (st(name \<mapsto> s - {k}))) = Inr \<lparr>success = False\<rparr>"
    by (simp add: deleteCQF_def)
  show ?thesis
    using noop gone again by (simp add: first)
qed

theorem delete_outcome_witness:
  "snd (buildCQF ''users'' [''1'', ''2'', ''3''] mockBackendStore) ''users'' = Some {''1'', ''2'', ''3''} \<and>
   fst (deleteCQF ''users'' ''2'' (snd (buildCQF ''users'' [''1'', ''2'', ''3''] mockBackendStore)))
     = Inr \<lparr>success = True\<rparr> \<and>
   fst (searchCQF ''users'' ''2''
         (snd (deleteCQF ''users'' ''2'' (snd (buildCQF ''users'' [''1'', ''2'', ''3''] mockBackendStore)))))
     = Inr \<lparr>found = False\<rparr> \<and>
   fst (deleteCQF ''users'' ''2''
         (snd (deleteCQF ''users'' ''2'' (snd (buildCQF ''users'' [''1'', ''2'', ''3''] mockBackendStore)))))
     = Inr \<lparr>success = False\<rparr>"
proof -
  have built: "snd (buildCQF ''users'' [''1'', ''2'', ''3''] mockBackendStore) ''users''
                 = Some {''1'', ''2'', ''3''}"
    by (simp add: buildCQF_def)
  note d = delete_outcome [of "snd (buildCQF ''users'' [''1'', ''2'', ''3''] mockBackendStore)"
        "''users''" "{''1'', ''2'', ''3''}" "''2''", OF built]
  from d have first:
    "fst (deleteCQF ''users'' ''2'' (snd (buildCQF ''users'' [''1'', ''2'', ''3''] mockBackendStore)))
       = Inr \<lparr>success = True\<rparr>"
    by simp
  from built first d show ?thesis
    by blast
qed


subsection \<open>Build replaces\<close>

text \<open>
  Claim C5. What a build leaves under its name, and what it returns, depend on the name
  and the keys only: from any two stores \<open>st\<close> and \<open>st'\<close> (whatever was built,
  inserted or deleted before) the result, the stored instance, its item count and the
  answer of a search for any key \<open>k\<close> are the same, the search finding exactly the keys
  supplied. Building a second time with the same keys changes nothing and returns the
  same result.
\<close>

theorem build_replaces:
  "buildCQF name keys (snd (buildCQF name keys st)) = buildCQF name keys st \<and>
   fst (buildCQF name keys st') = fst (buildCQF name keys st) \<and>
   snd (buildCQF name keys st') name = snd (buildCQF name keys st) name \<and>
   itemCount name (snd (buildCQF name keys st')) = itemCount name (snd (buildCQF name keys st)) \<and>
   fst (searchCQF name k (snd (buildCQF name keys st')))
     = fst (searchCQF name k (snd (buildCQF name keys st))) \<and>
   fst (searchCQF name k (snd (buildCQF name keys st))) = Inr \<lparr>found = (k \<in> set keys)\<rparr>"
  by (simp add: buildCQF_def searchCQF_def itemCount_def)

theorem build_replaces_witness:
  "snd (buildCQF ''users'' [''1'', ''2'']
         (run [Build ''users'' [''5''], Insert ''users'' ''6'', Delete ''users'' ''5''] mockBackendStore))
     ''users'' = Some {''1'', ''2''} \<and>
   fst (searchCQF ''users'' ''6'' (snd (buildCQF ''users'' [''1'', ''2'']
         (run [Build ''users'' [''5''], Insert ''users'' ''6'', Delete ''users'' ''5''] mockBackendStore))))
     = Inr \<lparr>found = False\<rparr>"
  using build_replaces [of "''users''" "[''1'', ''2'']" mockBackendStore
      "run [Build ''users'' [''5''], Insert ''users'' ''6'', Delete ''users'' ''5''] mockBackendStore"
      "''6''"]
  by (simp add: buildCQF_def)

subsection \<open>Insert, then delete\<close>

text \<open>
  Claim C6. On a name that has an instance, \<open>insert(name, k)\<close> succeeds, the
  \<open>delete(name, k)\<close> after it succeeds, and the \<open>search(name, k)\<close> after that returns
  \<open>found = false\<close>, for every key \<open>k\<close>, whether or not it was a member before.
\<close>

theorem insert_delete_round_trip:
  assumes "st name = Some s"
  shows "fst (insertCQF name k st) = Inr \<lparr>success = True\<rparr> \<and>
         fst (deleteCQF name k (snd (insertCQF name k st))) = Inr \<lparr>success = True\<rparr> \<and>
         fst (searchCQF name k (snd (deleteCQF name k (snd (insertCQF name k st)))))
           = Inr \<lparr>found = False\<rparr>"
  using assms by (simp add: insertCQF_def deleteCQF_def searchCQF_def)

theorem insert_delete_round_trip_witness:
  "snd (buildCQF ''users'' [''1'', ''2''] mockBackendStore) ''users'' = Some {''1'', ''2''} \<and>
   fst (searchCQF ''users'' ''2''
     (snd (deleteCQF ''users'' ''2''
       (snd (insertCQF ''users'' ''2'' (snd (buildCQF ''users'' [''1'', ''2''] mockBackendStore)))))))
     = Inr \<lparr>found = False\<rparr>"
proof -
  have built: "snd (buildCQF ''users'' [''1'', ''2''] mockBackendStore) ''users'' = Some {''1'', ''2''}"
    by (simp add: buildCQF_def)
  from built insert_delete_round_trip [where k = "''2''" and name = "''users''"
      and s = "{''1'', ''2''}" and st = "snd (buildCQF ''users'' [''1'', ''2''] mockBackendStore)"]
  show ?thesis
    by blast
qed

subsection \<open>Build touches one name\<close>

text \<open>
  Claim C7. For two distinct names \<open>A\<close> and \<open>B\<close>, a build of \<open>A\<close> leaves what the
  store holds under \<open>B\<close> as it was: no instance stays no instance, an instance keeps
  its keys, its item count and the answer to every search.
\<close>

theorem build_isolation:
  assumes "A \<noteq> B"
  shows "snd (buildCQF A keys st) B = st B \<and>
         itemCount B (snd (buildCQF A keys st)) = itemCount B st \<and>
         fst (searchCQF B k (snd (buildCQF A keys st))) = fst (searchCQF B k st)"
  using assms by (simp add: buildCQF_def itemCount_def searchCQF_def split: option.splits)

theorem build_isolation_witness:
  "''users'' \<noteq> ''orders'' \<and>
   snd (buildCQF ''users'' [''9'']  (snd (buildCQF ''orders'' [''x'', ''y''] mockBackendStore))) ''orders''
     = Some {''x'', ''y''}"
proof -
  have ne: "''users'' \<noteq> ''orders''"
    by simp
  have before: "snd (buildCQF ''orders'' [''x'', ''y''] mockBackendStore) ''orders'' = Some {''x'', ''y''}"
    by (simp add: buildCQF_def)
  from ne before build_isolation [OF ne, of "[''9'']" "snd (buildCQF ''orders'' [''x'', ''y''] mockBackendStore)"]
  show ?thesis
    by simp
qed

subsection \<open>Failed calls\<close>

text \<open>
  Claim C8. A build has no failing outcome: it always resolves, with \<open>success\<close> true,
  so no failed build can damage an earlier instance. An insert or a delete that fails
  does so with the not-built error, on a name without an instance, and leaves the whole
  store exactly as it was.
\<close>

theorem failure_is_atomic:
  "(\<exists>r. fst (buildCQF name keys st) = Inr r \<and> success r) \<and>
   (fst (insertCQF name k st) = Inl e \<longrightarrow> e = NotBuilt \<and> st name = None \<and> snd (insertCQF name k st) = st) \<and>
   (fst (deleteCQF name k st) = Inl e \<longrightarrow> e = NotBuilt \<and> st name = None \<and> snd (deleteCQF name k st) = st)"
  by (simp add: buildCQF_def insertCQF_def deleteCQF_def NotBuilt_def split: option.splits)

theorem failure_is_atomic_witness:
  "fst (insertCQF ''orders'' ''x'' (snd (buildCQF ''users'' [''1''] mockBackendStore))) = Inl NotBuilt \<and>
   snd (insertCQF ''orders'' ''x'' (snd (buildCQF ''users'' [''1''] mockBackendStore)))
     = snd (buildCQF ''users'' [''1''] mockBackendStore) \<and>
   fst (deleteCQF ''orders'' ''x'' (snd (buildCQF ''users'' [''1''] mockBackendStore))) = Inl NotBuilt \<and>
   snd (deleteCQF ''orders'' ''x'' (snd (buildCQF ''users'' [''1''] mockBackendStore)))
     = snd (buildCQF ''users'' [''1''] mockBackendStore)"
proof -
  have i: "fst (insertCQF ''orders'' ''x'' (snd (buildCQF ''users'' [''1''] mockBackendStore))) = Inl NotBuilt"
    by (simp add: insertCQF_def buildCQF_def NotBuilt_def mockBackendStore_def)
  have d: "fst (deleteCQF ''orders'' ''x'' (snd (buildCQF ''users'' [''1''] mockBackendStore))) = Inl NotBuilt"
    by (simp add: deleteCQF_def buildCQF_def NotBuilt_def mockBackendStore_def)
  from i d failure_is_atomic [where name = "''orders''" and k = "''x''" and e = NotBuilt
      and st = "snd (buildCQF ''users'' [''1''] mockBackendStore)"]
  show ?thesis
    by blast
qed

subsection \<open>The key file\<close>

lemma join_from_concat: "join_from sep r xs = r @ concat (map (\<lambda>x. sep @ x) xs)"
  by (induction xs arbitrary: r) simp_all

lemma newline_joined_Cons:
  "newline_joined (k # ks) = k @ concat (map ((#) (CHR 0x0A)) ks)"
  by (induction ks arbitrary: k) simp_all

lemma length_concat_sep:
  "length (concat (map ((#) c) ks)) = sum_list (map length ks) + length ks"
  by (induction ks) simp_all

text \<open>
  Claim C9. For every list of keys the file content is the keys joined by single newline
  characters, as \<open>newline_joined\<close> words it: no header, no newline after the last key.
  The content of the empty list is the empty string and the content of a single key is
  the key; the content is as long as all keys together plus one character for each key
  but the first.
\<close>

theorem pk_file_content:
  "generatePKFileContent keys = newline_joined keys \<and>
   generatePKFileContent [] = [] \<and>
   generatePKFileContent [k] = k \<and>
   length (generatePKFileContent keys) = sum_list (map length keys) + (length keys - 1)"
proof -
  have eq: "generatePKFileContent keys = newline_joined keys"
    by (cases keys) (simp_all add: generatePKFileContent_def join_from_concat newline_joined_Cons)
  have len: "length (newline_joined keys) = sum_list (map length keys) + (length keys - 1)"
  proof (cases keys)
    case Nil
    then show ?thesis by simp
  next
    case (Cons x xs)
    then show ?thesis
      by (simp add: newline_joined_Cons length_concat_sep del: newline_joined.simps)
  qed
  show ?thesis
    using len by (simp add: eq) (simp add: generatePKFileContent_def)
qed

theorem pk_file_content_witness:
  "generatePKFileContent [''10'', ''20'', ''30''] = [CHR ''1'', CHR ''0'', CHR 0x0A, CHR ''2'', CHR ''0'', CHR 0x0A, CHR ''3'', CHR ''0''] \<and>
   length (generatePKFileContent [''10'', ''20'', ''30'']) = 8"
  using pk_file_content [of "[''10'', ''20'', ''30'']"]
  by simp

subsection \<open>Insert\<close>

text \<open>
  Claim C10. On a name whose instance holds the keys \<open>s\<close>, \<open>insert(name, key)\<close>
  returns \<open>success = true\<close> for every key, with no capacity or other failure, and
  leaves the instance as \<open>s\<close> with the key added; when the key is already a member the
  store is unchanged. A search for the key then finds it.
\<close>

theorem insert_always_succeeds:
  assumes "st name = Some s"
  shows "insertCQF name k st = (Inr \<lparr>success = True\<rparr>, st(name \<mapsto> insert k s)) \<and>
         (k \<in> s \<longrightarrow> snd (insertCQF name k st) = st) \<and>
         fst (searchCQF name k (snd (insertCQF name k st))) = Inr \<lparr>found = True\<rparr>"
proof -
  have step: "insertCQF name k st = (Inr \<lparr>success = True\<rparr>, st(name \<mapsto> insert k s))"
    using assms by (simp add: insertCQF_def)
  have noop: "k \<in> s \<longrightarrow> st(name \<mapsto> insert k s) = st"
    using assms by (simp add: insert_absorb fun_upd_idem)
  have found: "fst (searchCQF name k (st(name \<mapsto> insert k s))) = Inr \<lparr>found = True\<rparr>"
    by (simp add: searchCQF_def)
  show ?thesis
    using noop found by (simp add: step)
qed

theorem insert_always_succeeds_witness:
  "snd (buildCQF ''users'' [''1'', ''2''] mockBackendStore) ''users'' = Some {''1'', ''2''} \<and>
   ''2'' \<in> {''1'', ''2''} \<and>
   insertCQF ''users'' ''2'' (snd (buildCQF ''users'' [''1'', ''2''] mockBackendStore))
     = (Inr \<lparr>success = True\<rparr>, snd (buildCQF ''users'' [''1'', ''2''] mockBackendStore))"
proof -
  have built: "snd (buildCQF ''users'' [''1'', ''2''] mockBackendStore) ''users'' = Some {''1'', ''2''}"
    by (simp add: buildCQF_def)
  have mem: "''2'' \<in> {''1'', ''2''}"
    by simp
  note i = insert_always_succeeds [where k = "''2''" and name = "''users''"
      and s = "{''1'', ''2''}" and st = "snd (buildCQF ''users'' [''1'', ''2''] mockBackendStore)",
      OF built]
  from i mem have same: "snd (insertCQF ''users'' ''2'' (snd (buildCQF ''users'' [''1'', ''2''] mockBackendStore)))
      = snd (buildCQF ''users'' [''1'', ''2''] mockBackendStore)"
    by blast
  from i have res: "fst (insertCQF ''users'' ''2'' (snd (buildCQF ''users'' [''1'', ''2''] mockBackendStore)))
      = Inr \<lparr>success = True\<rparr>"
    by simp
  from built mem same res show ?thesis
    by (simp add: prod_eq_iff)
qed

end
